theory Spec2Isabelle
  imports Complex_Main
begin

section \<open>JavaScript values used by the services\<close>

text \<open>
  A JavaScript number is modelled by an exact rational, together with the two
  special values that a division of array lengths can produce: \<open>0 / 0\<close> is
  \<open>NaN\<close> and \<open>n / 0\<close> for a positive \<open>n\<close> is \<open>Infinity\<close>. Every comparison with
  \<open>NaN\<close> is false, and \<open>Math.max\<close> is \<open>NaN\<close> as soon as one argument is.
\<close>

datatype number = NaN | PosInf | Num rat

definition js_div :: "nat \<Rightarrow> nat \<Rightarrow> number" where
  "js_div a b =
     (if b = 0 then (if a = 0 then NaN else PosInf)
      else Num (of_nat a / of_nat b))"

fun js_ge :: "number \<Rightarrow> number \<Rightarrow> bool" where
  "js_ge NaN y = False"
| "js_ge x NaN = False"
| "js_ge PosInf y = True"
| "js_ge (Num a) PosInf = False"
| "js_ge (Num a) (Num b) = (b \<le> a)"

fun js_max :: "number \<Rightarrow> number \<Rightarrow> number" where
  "js_max NaN y = NaN"
| "js_max x NaN = NaN"
| "js_max PosInf y = PosInf"
| "js_max x PosInf = PosInf"
| "js_max (Num a) (Num b) = Num (max a b)"

text \<open>
  The operator \<open>a || b\<close> on an optional string or number: the default is taken
  when the value is missing, the empty string or zero.
\<close>

definition or_string :: "string option \<Rightarrow> string \<Rightarrow> string" where
  "or_string v d = (case v of None \<Rightarrow> d | Some x \<Rightarrow> if x = [] then d else x)"

definition or_number :: "rat option \<Rightarrow> rat \<Rightarrow> rat" where
  "or_number v d = (case v of None \<Rightarrow> d | Some x \<Rightarrow> if x = 0 then d else x)"

text \<open>
  What a failing call throws: an \<open>Error\<close> object with its message, or any other
  value. A call either throws or returns.
\<close>

datatype thrown = ErrorObj string | OtherValue

datatype 'a outcome = Threw thrown | Returned 'a

text \<open>
  The answer of \<open>fetch\<close>: the \<open>ok\<close> flag, the status text, and what reading and
  decoding the body gives (\<open>response.json()\<close>, \<open>JSON.parse\<close> and the field accesses
  may all throw).
\<close>

record 'b response =
  ok :: bool
  statusText :: string
  body :: "'b outcome"

type_synonym 'b call = "'b response outcome"

text \<open>
  Sequencing of awaited calls, \<open>try { ... } catch (error) { ... }\<close>, and
  \<open>Promise.all\<close>, which rejects as soon as one of its promises does.
\<close>

definition await :: "'a outcome \<Rightarrow> ('a \<Rightarrow> 'b outcome) \<Rightarrow> 'b outcome" where
  "await p k = (case p of Threw e \<Rightarrow> Threw e | Returned v \<Rightarrow> k v)"

definition try_catch :: "'a outcome \<Rightarrow> (thrown \<Rightarrow> 'a outcome) \<Rightarrow> 'a outcome" where
  "try_catch block handler = (case block of Threw e \<Rightarrow> handler e | Returned v \<Rightarrow> Returned v)"

fun promise_all :: "'a outcome list \<Rightarrow> 'a list outcome" where
  "promise_all [] = Returned []"
| "promise_all (p # ps) =
     await p (\<lambda>v. await (promise_all ps) (\<lambda>vs. Returned (v # vs)))"

text \<open>\<open>error instanceof Error ? error.message : "Unknown error"\<close>\<close>

definition errorMessage :: "thrown \<Rightarrow> string" where
  "errorMessage error = (case error of ErrorObj m \<Rightarrow> m | OtherValue \<Rightarrow> ''Unknown error'')"

text \<open>The API keys of the configuration; a key that is not set is the empty string.\<close>

record apiConfig =
  anthropic_apiKey :: string
  fetchAI_apiKey :: string
  gemini_apiKey :: string
  brightData_apiKey :: string
  lavaGateway_apiKey :: string
  chromaAI_apiKey :: string
  groq_apiKey :: string

section \<open>The verification service\<close>

datatype verdict = VTrue | VFalse | Inconclusive

record VerificationAgent =
  name :: string
  verdict :: verdict
  confidence :: rat
  reasoning :: "string option"
  citations :: "string list option"

record lavaConsensus =
  verdict_c :: verdict
  consensusScore :: number

subsection \<open>calculateLocalConsensus\<close>

definition consensusThreshold :: number where
  "consensusThreshold = Num (6 / 10)"

definition calculateLocalConsensus :: "VerificationAgent list \<Rightarrow> lavaConsensus" where
  "calculateLocalConsensus agents =
     (let falseCount = length (filter (\<lambda>a. verdict a = VFalse) agents);
          trueCount = length (filter (\<lambda>a. verdict a = VTrue) agents);
          inconclusiveCount = length (filter (\<lambda>a. verdict a = Inconclusive) agents);
          totalVotes = length agents
      in if js_ge (js_div falseCount totalVotes) consensusThreshold
         then \<lparr>verdict_c = VFalse, consensusScore = js_div falseCount totalVotes\<rparr>
         else if js_ge (js_div trueCount totalVotes) consensusThreshold
         then \<lparr>verdict_c = VTrue, consensusScore = js_div trueCount totalVotes\<rparr>
         else \<lparr>verdict_c = Inconclusive,
               consensusScore =
                 js_div (max (max falseCount trueCount) inconclusiveCount) totalVotes\<rparr>)"

text \<open>The vote of an agent list as the specification counts it.\<close>

definition votes :: "verdict \<Rightarrow> VerificationAgent list \<Rightarrow> nat" where
  "votes v agents = count_list (map verdict agents) v"

definition vote_fraction :: "verdict \<Rightarrow> VerificationAgent list \<Rightarrow> number" where
  "vote_fraction v agents = js_div (votes v agents) (length agents)"

definition agentWith :: "verdict \<Rightarrow> VerificationAgent" where
  "agentWith v =
     \<lparr>name = ''agent'', verdict = v, confidence = 1, reasoning = None, citations = None\<rparr>"

subsection \<open>The agents\<close>

text \<open>
  The decoded JSON answer of an agent, and what the network gives to each call of
  one verification: the remote services are outside the program, so their answers
  are parameters of the model. A decoded answer has the fields its TypeScript type
  gives it; in particular its verdict is one of the three verdicts.
\<close>

record agentReply =
  reply_verdict :: verdict
  reply_confidence :: rat
  reply_reasoning :: "string option"
  reply_citations :: "string list option"

record fetchAIData =
  data_verdict :: "verdict option"
  data_confidence :: "rat option"
  data_reasoning :: "string option"

record network =
  randomUUID :: string
  claudeMessages :: "agentReply call"
  agentverseVerify :: "fetchAIData call"
  geminiGenerate :: "agentReply call"
  brightDataSearch :: "nat option call"
  llamaVerify :: "agentReply call"
  lavaConsensusCall :: "lavaConsensus call"
  claudeCorrection :: "string call"

definition verifyWithClaude :: "apiConfig \<Rightarrow> network \<Rightarrow> VerificationAgent outcome" where
  "verifyWithClaude cfg net =
     (if anthropic_apiKey cfg = [] then
        Returned \<lparr>name = ''Claude (Anthropic)'', verdict = Inconclusive, confidence = 0,
          reasoning = Some ''API key not configured'', citations = None\<rparr>
      else
        try_catch
          (await (claudeMessages net) (\<lambda>response.
             if \<not> ok response
             then Threw (ErrorObj (''Claude API error: '' @ statusText response))
             else await (body response) (\<lambda>result.
               Returned \<lparr>name = ''Claude (Anthropic)'', verdict = reply_verdict result,
                 confidence = reply_confidence result,
                 reasoning = reply_reasoning result, citations = None\<rparr>)))
          (\<lambda>error.
             Returned \<lparr>name = ''Claude (Anthropic)'', verdict = Inconclusive, confidence = 0,
               reasoning = Some (''Error: '' @ errorMessage error), citations = None\<rparr>))"

definition verifyWithFetchAI :: "apiConfig \<Rightarrow> network \<Rightarrow> VerificationAgent outcome" where
  "verifyWithFetchAI cfg net =
     (if fetchAI_apiKey cfg = [] then
        Returned \<lparr>name = ''Fetch.ai'', verdict = Inconclusive, confidence = 0,
          reasoning = Some ''API key not configured'', citations = None\<rparr>
      else
        try_catch
          (await (agentverseVerify net) (\<lambda>response.
             if \<not> ok response
             then Threw (ErrorObj (''Fetch.ai API error: '' @ statusText response))
             else await (body response) (\<lambda>data.
               Returned \<lparr>name = ''Fetch.ai'',
                 verdict = (case data_verdict data of None \<Rightarrow> Inconclusive | Some v \<Rightarrow> v),
                 confidence = or_number (data_confidence data) (8 / 10),
                 reasoning = Some (or_string (data_reasoning data) ''Fetch.ai agent verification''),
                 citations = None\<rparr>)))
          (\<lambda>error.
             Returned \<lparr>name = ''Fetch.ai'', verdict = Inconclusive, confidence = 0,
               reasoning = Some (''Error: '' @ errorMessage error), citations = None\<rparr>))"

definition verifyWithGemini :: "apiConfig \<Rightarrow> network \<Rightarrow> VerificationAgent outcome" where
  "verifyWithGemini cfg net =
     (if gemini_apiKey cfg = [] then
        Returned \<lparr>name = ''Gemini (Google)'', verdict = Inconclusive, confidence = 0,
          reasoning = Some ''API key not configured'', citations = None\<rparr>
      else
        try_catch
          (await (geminiGenerate net) (\<lambda>response.
             if \<not> ok response
             then Threw (ErrorObj (''Gemini API error: '' @ statusText response))
             else await (body response) (\<lambda>result.
               Returned \<lparr>name = ''Gemini (Google)'', verdict = reply_verdict result,
                 confidence = reply_confidence result,
                 reasoning = reply_reasoning result, citations = None\<rparr>)))
          (\<lambda>error.
             Returned \<lparr>name = ''Gemini (Google)'', verdict = Inconclusive, confidence = 0,
               reasoning = Some (''Error: '' @ errorMessage error), citations = None\<rparr>))"

definition verifyWithLlama :: "apiConfig \<Rightarrow> network \<Rightarrow> VerificationAgent outcome" where
  "verifyWithLlama cfg net =
     (if lavaGateway_apiKey cfg = [] then
        Returned \<lparr>name = ''Llama (Lava Portal)'', verdict = Inconclusive, confidence = 0,
          reasoning = Some ''Lava Gateway API key not configured'', citations = None\<rparr>
      else
        try_catch
          (await (llamaVerify net) (\<lambda>response.
             if \<not> ok response
             then Threw (ErrorObj (''Lava Gateway Llama API error: '' @ statusText response))
             else await (body response) (\<lambda>result.
               Returned \<lparr>name = ''Llama (Lava Portal)'', verdict = reply_verdict result,
                 confidence = reply_confidence result,
                 reasoning = reply_reasoning result,
                 citations =
                   Some (case reply_citations result of None \<Rightarrow> [] | Some cs \<Rightarrow> cs)\<rparr>)))
          (\<lambda>error.
             Returned \<lparr>name = ''Llama (Lava Portal)'', verdict = Inconclusive, confidence = 0,
               reasoning = Some (''Error: '' @ errorMessage error), citations = None\<rparr>))"

text \<open>
  The answer of the Bright Data search is the number of entries of \<open>data.results\<close>,
  when the field is there.
\<close>

definition verifyWithBrightData :: "apiConfig \<Rightarrow> network \<Rightarrow> VerificationAgent outcome" where
  "verifyWithBrightData cfg net =
     (if brightData_apiKey cfg = [] then
        Returned \<lparr>name = ''Bright Data'', verdict = Inconclusive, confidence = 0,
          reasoning = Some ''API key not configured'', citations = None\<rparr>
      else
        try_catch
          (await (brightDataSearch net) (\<lambda>response.
             if \<not> ok response
             then Threw (ErrorObj (''Bright Data API error: '' @ statusText response))
             else await (body response) (\<lambda>results.
               let hasResults = (case results of None \<Rightarrow> False | Some n \<Rightarrow> 0 < n)
               in Returned \<lparr>name = ''Bright Data'',
                    verdict = (if hasResults then VTrue else Inconclusive),
                    confidence = (if hasResults then 75 / 100 else 3 / 10),
                    reasoning = Some (if hasResults then ''Found supporting web sources''
                                      else ''No conclusive web sources found''),
                    citations = None\<rparr>)))
          (\<lambda>error.
             Returned \<lparr>name = ''Bright Data'', verdict = Inconclusive, confidence = 0,
               reasoning = Some (''Error: '' @ errorMessage error), citations = None\<rparr>))"

subsection \<open>getLavaGatewayConsensus\<close>

definition getLavaGatewayConsensus ::
  "apiConfig \<Rightarrow> network \<Rightarrow> VerificationAgent list \<Rightarrow> lavaConsensus outcome" where
  "getLavaGatewayConsensus cfg net agents =
     (if lavaGateway_apiKey cfg = [] then Returned (calculateLocalConsensus agents)
      else
        try_catch
          (await (lavaConsensusCall net) (\<lambda>response.
             if \<not> ok response
             then Threw (ErrorObj (''Lava Gateway error: '' @ statusText response))
             else await (body response) (\<lambda>data. Returned data)))
          (\<lambda>error. Returned (calculateLocalConsensus agents)))"

subsection \<open>generateCorrectInformation\<close>

record correctionData =
  correctInformation_d :: string
  citations_d :: "string list"

definition falseReasonings :: "VerificationAgent list \<Rightarrow> string list" where
  "falseReasonings agents =
     filter (\<lambda>r. r \<noteq> [])
       (concat (map (\<lambda>a. case reasoning a of None \<Rightarrow> [] | Some r \<Rightarrow> [r])
          (filter (\<lambda>a. verdict a = VFalse) agents)))"

definition allCitations :: "VerificationAgent list \<Rightarrow> string list" where
  "allCitations agents =
     concat (map (\<lambda>a. case citations a of None \<Rightarrow> [] | Some cs \<Rightarrow> cs)
       (filter (\<lambda>a. verdict a = VFalse) agents))"

definition generateCorrectInformation ::
  "apiConfig \<Rightarrow> network \<Rightarrow> VerificationAgent list \<Rightarrow> correctionData outcome" where
  "generateCorrectInformation cfg net agents =
     (case falseReasonings agents of
        [] \<Rightarrow>
          Returned \<lparr>correctInformation_d =
              ''The statement has been determined to be false, but specific corrections are unavailable.'',
            citations_d = []\<rparr>
      | first # _ \<Rightarrow>
          (let fallback =
                 Returned \<lparr>correctInformation_d = ''Correction: '' @ first,
                   citations_d = allCitations agents\<rparr>
           in if anthropic_apiKey cfg \<noteq> [] then
                try_catch
                  (await (claudeCorrection net) (\<lambda>response.
                     if ok response
                     then await (body response) (\<lambda>text.
                       Returned \<lparr>correctInformation_d = text,
                         citations_d = allCitations agents\<rparr>)
                     else fallback))
                  (\<lambda>error. fallback)
              else fallback))"

subsection \<open>verifyStatement\<close>

datatype consensus_label = verified_true | verified_false | inconclusive

record VerificationResult =
  statementId :: string
  isFalse :: bool
  consensus :: consensus_label
  correctInformation :: "string option"
  citations_r :: "string list option"
  agents :: "VerificationAgent list"
  lavaGatewayConsensus :: lavaConsensus

definition verifyStatement :: "apiConfig \<Rightarrow> network \<Rightarrow> string \<Rightarrow> VerificationResult outcome" where
  "verifyStatement cfg net statement =
     await (promise_all
              [verifyWithClaude cfg net, verifyWithFetchAI cfg net, verifyWithGemini cfg net,
               verifyWithBrightData cfg net, verifyWithLlama cfg net]) (\<lambda>agents.
     await (getLavaGatewayConsensus cfg net agents) (\<lambda>lavaGatewayConsensus.
       let isFalse = (verdict_c lavaGatewayConsensus = VFalse);
           consensus =
             (if verdict_c lavaGatewayConsensus = VTrue then verified_true
              else if verdict_c lavaGatewayConsensus = VFalse then verified_false
              else inconclusive)
       in await (if isFalse
                 then await (generateCorrectInformation cfg net agents) (\<lambda>d.
                        Returned (Some (correctInformation_d d), Some (citations_d d)))
                 else Returned (None, None)) (\<lambda>correctionData.
            Returned \<lparr>statementId = randomUUID net, isFalse = isFalse,
              consensus = consensus,
              correctInformation = fst correctionData,
              citations_r = snd correctionData,
              agents = agents,
              lavaGatewayConsensus = lavaGatewayConsensus\<rparr>)))"

section \<open>Strings\<close>

text \<open>
  A string is the list of its code units; the model covers the code units below
  256. \<open>trim\<close> removes the white space and line terminators of that range from
  both ends, \<open>toLowerCase\<close> maps the capital letters of that range, and the regular
  expression classes \<open>\d\<close>, \<open>\w\<close> and \<open>\b\<close> are the ASCII ones.
\<close>

definition isWhiteSpace :: "char \<Rightarrow> bool" where
  "isWhiteSpace c =
     (c \<in> set [CHR 0x09, CHR 0x0A, CHR 0x0B, CHR 0x0C, CHR 0x0D, CHR 0x20, CHR 0xA0])"

definition trim :: "string \<Rightarrow> string" where
  "trim s = rev (dropWhile isWhiteSpace (rev (dropWhile isWhiteSpace s)))"

definition lowerChar :: "char \<Rightarrow> char" where
  "lowerChar c =
     (let n = (of_char c :: nat)
      in if (65 \<le> n \<and> n \<le> 90) \<or> (192 \<le> n \<and> n \<le> 222 \<and> n \<noteq> 215)
         then char_of (n + 32) else c)"

definition toLowerCase :: "string \<Rightarrow> string" where
  "toLowerCase s = map lowerChar s"

definition startsWith :: "string \<Rightarrow> string \<Rightarrow> bool" where
  "startsWith s p = (take (length p) s = p)"


fun includes_str :: "string \<Rightarrow> string \<Rightarrow> bool" where
  "includes_str [] p = (p = [])"
| "includes_str (c # cs) p = (startsWith (c # cs) p \<or> includes_str cs p)"


definition isWordChar :: "char \<Rightarrow> bool" where
  "isWordChar c =
     (c \<in> set ''abcdefghijklmnopqrstuvwxyzABCDEFGHIJKLMNOPQRSTUVWXYZ0123456789_'')"

text \<open>
  \<open>/\b(w1|w2|...)\b/.test(s)\<close> for alternatives made of word characters: some
  alternative occurs at a position that is the start of the string or follows a
  non-word character, and ends at the end of the string or in front of a non-word
  character. The flag \<open>afterWord\<close> tells whether the previous character is a word
  character.
\<close>

definition wordAt :: "string \<Rightarrow> string \<Rightarrow> bool" where
  "wordAt s w =
     (startsWith s w \<and>
      (case drop (length w) s of [] \<Rightarrow> True | c # cs \<Rightarrow> \<not> isWordChar c))"

fun testWordsFrom :: "string list \<Rightarrow> bool \<Rightarrow> string \<Rightarrow> bool" where
  "testWordsFrom ws afterWord [] = False"
| "testWordsFrom ws afterWord (c # cs) =
     ((\<not> afterWord \<and> list_ex (wordAt (c # cs)) ws) \<or> testWordsFrom ws (isWordChar c) cs)"

definition testWords :: "string list \<Rightarrow> string \<Rightarrow> bool" where
  "testWords ws s = testWordsFrom ws False s"

text \<open>
  \<open>s.split(/[.;]+/)\<close>: the pieces between the maximal runs of full stops and
  semicolons, the empty pieces at both ends included. The first argument is the
  piece being read, reversed.
\<close>

definition isBoundary :: "char \<Rightarrow> bool" where
  "isBoundary c = (c = CHR ''.'' \<or> c = CHR '';'')"

function splitBoundaries :: "string \<Rightarrow> string \<Rightarrow> string list" where
  "splitBoundaries cur [] = [rev cur]"
| "splitBoundaries cur (c # cs) =
     (if isBoundary c then rev cur # splitBoundaries [] (dropWhile isBoundary cs)
      else splitBoundaries (c # cur) cs)"
  by pat_completeness auto
termination
  by (relation "measure (\<lambda>(cur, s). length s)")
    (auto simp: less_Suc_eq_le length_dropWhile_le)

text \<open>
  \<open>s.split(new RegExp(conjunction, "gi"))\<close> for a pattern of lower-case letters, spaces
  and punctuation: the pieces between the successive occurrences of the pattern,
  found from left to right without regard to case.
\<close>

function splitRegExp :: "string \<Rightarrow> string \<Rightarrow> string \<Rightarrow> string list" where
  "splitRegExp conjunction cur [] = [rev cur]"
| "splitRegExp conjunction cur (c # cs) =
     (if conjunction \<noteq> [] \<and> startsWith (toLowerCase (c # cs)) conjunction
      then rev cur # splitRegExp conjunction [] (drop (length conjunction) (c # cs))
      else splitRegExp conjunction (c # cur) cs)"
  by pat_completeness auto
termination
  by (relation "measure (\<lambda>(conjunction, cur, s). length s)") auto

section \<open>The semantic service\<close>

record SemanticAnalysisResult =
  originalText :: string
  improvedText :: string
  confidence_s :: rat

record semanticData =
  improved_text :: "string option"
  data_confidence_s :: "rat option"

record classifyData =
  data_type :: string
  data_confidence_c :: "rat option"
  data_reasoning_c :: "string option"

text \<open>
  The answers of the remote semantic services, for the text each request carries.
\<close>

record semanticNetwork =
  chromaSemanticAnalysis :: "string \<Rightarrow> semanticData call"
  groqChatCompletions :: "string \<Rightarrow> semanticData call"
  claudeClassification :: "string \<Rightarrow> classifyData call"

definition analyzeWithChromaAI ::
  "semanticNetwork \<Rightarrow> string \<Rightarrow> SemanticAnalysisResult outcome" where
  "analyzeWithChromaAI net transcription =
     await (chromaSemanticAnalysis net transcription) (\<lambda>response.
       if \<not> ok response
       then Threw (ErrorObj (''Chroma AI API error: '' @ statusText response))
       else await (body response) (\<lambda>data.
         Returned \<lparr>originalText = transcription,
           improvedText = or_string (improved_text data) transcription,
           confidence_s = or_number (data_confidence_s data) (8 / 10)\<rparr>))"

definition analyzeWithGroq ::
  "semanticNetwork \<Rightarrow> string \<Rightarrow> SemanticAnalysisResult outcome" where
  "analyzeWithGroq net transcription =
     await (groqChatCompletions net transcription) (\<lambda>response.
       if \<not> ok response
       then Threw (ErrorObj (''Groq API error: '' @ statusText response))
       else await (body response) (\<lambda>result.
         Returned \<lparr>originalText = transcription,
           improvedText = or_string (improved_text result) transcription,
           confidence_s = or_number (data_confidence_s result) (8 / 10)\<rparr>))"

text \<open>The word segments of the fallback analysis are read by no caller and are left out.\<close>

definition fallbackAnalysis :: "string \<Rightarrow> SemanticAnalysisResult" where
  "fallbackAnalysis transcription =
     \<lparr>originalText = transcription, improvedText = transcription, confidence_s = 5 / 10\<rparr>"

definition analyzeTranscription ::
  "apiConfig \<Rightarrow> semanticNetwork \<Rightarrow> string \<Rightarrow> SemanticAnalysisResult outcome" where
  "analyzeTranscription cfg net transcription =
     (let afterChroma =
            (if groq_apiKey cfg \<noteq> []
             then try_catch (analyzeWithGroq net transcription)
                    (\<lambda>error. Returned (fallbackAnalysis transcription))
             else Returned (fallbackAnalysis transcription))
      in if chromaAI_apiKey cfg \<noteq> []
         then try_catch (analyzeWithChromaAI net transcription) (\<lambda>error. afterChroma)
         else afterChroma)"

subsection \<open>splitStatements\<close>

definition conjunctions :: "string list" where
  "conjunctions =
     ['' and '', '' but '', '' or '', '' so '', '' because '', '' however '',
      '' therefore '', '' moreover '', '' furthermore '', '' additionally '', '' also '',
      '', and '', '', but '', '', so '', ''; '']"

definition verbs :: "string list" where
  "verbs = [''is'', ''are'', ''was'', ''were'', ''has'', ''have'', ''had'', ''will'',
            ''would'', ''can'', ''could'', ''does'', ''did'']"

definition hasVerb :: "string \<Rightarrow> bool" where
  "hasVerb part = testWords verbs (toLowerCase part)"

definition validPart :: "string \<Rightarrow> bool" where
  "validPart part = (hasVerb part \<and> 5 < length (trim part))"

text \<open>
  The loop over the conjunctions for one trimmed sentence: the statements pushed by
  the first conjunction that gives more than one valid part, if there is one.
\<close>

fun findSplit :: "string list \<Rightarrow> string \<Rightarrow> string list option" where
  "findSplit [] remainingText = None"
| "findSplit (conjunction # rest) remainingText =
     (if includes_str (toLowerCase remainingText) conjunction then
        (let parts = splitRegExp conjunction [] remainingText;
             validParts = filter validPart parts
         in if 1 < length validParts then Some (map trim validParts)
            else findSplit rest remainingText)
      else findSplit rest remainingText)"

text \<open>The statements one sentence adds.\<close>

definition splitSentence :: "string \<Rightarrow> string list" where
  "splitSentence sentence =
     (let remainingText = trim sentence
      in case findSplit conjunctions remainingText of
           Some statements \<Rightarrow> statements
         | None \<Rightarrow> if 0 < length remainingText then [remainingText] else [])"

text \<open>
  What \<open>splitStatements\<close> does once the analysis has returned, as a function of
  the improved text.
\<close>

definition extractStatements :: "string \<Rightarrow> string list" where
  "extractStatements currentText =
     (let sentences = filter (\<lambda>s. trim s \<noteq> []) (splitBoundaries [] currentText);
          statements = concat (map splitSentence sentences)
      in if 0 < length statements then statements else [currentText])"

definition splitStatements ::
  "apiConfig \<Rightarrow> semanticNetwork \<Rightarrow> string \<Rightarrow> string list outcome" where
  "splitStatements cfg net text =
     await (analyzeTranscription cfg net text) (\<lambda>analysis.
       Returned (extractStatements (improvedText analysis)))"

subsection \<open>classifyStatementWithClaude\<close>



section \<open>The voice service\<close>






section \<open>The statement queue of the application\<close>

datatype SpeakerQueueProcessingStatus = Pending | Processing | Processed | Failed

record SpeakerQueueModel =
  item_id :: string
  user_session_id :: string
  speaker_id_q :: string
  statement_text :: string
  statement_timestamp :: string
  processing_status :: SpeakerQueueProcessingStatus

text \<open>
  The state that \<open>processStatement\<close> reads and writes: the external record store
  of queue entries, the React state of the component (the queue shown, the entry
  being processed, the verification results), the errors written to the console,
  and the corrections for which an interjection task has been started.
\<close>

record AppState =
  store :: "string \<rightharpoonup> SpeakerQueueModel"
  speakerQueue :: "SpeakerQueueModel list"
  processingStatement :: "SpeakerQueueModel option"
  verificationResults :: "VerificationResult list"
  consoleErrors :: "thrown list"
  interjections :: "string list"

text \<open>
  Modelled from the spec: the record store's \<open>updateById(id, entity)\<close>, an upsert
  by id; the class \<open>SpeakerQueueORM\<close> is not among the sources. Whether each of the
  three calls of \<open>setSpeakerQueueById\<close> succeeds or throws is given from outside.
\<close>

record ormAnswers =
  upsertProcessing :: "unit outcome"
  upsertProcessed :: "unit outcome"
  upsertFailed :: "unit outcome"

definition setSpeakerQueueById :: "string \<Rightarrow> SpeakerQueueModel \<Rightarrow> AppState \<Rightarrow> AppState" where
  "setSpeakerQueueById i item st = st\<lparr>store := (store st)(i \<mapsto> item)\<rparr>"

text \<open>\<open>setSpeakerQueue((prev) => prev.map((item) => item.id === id ? newItem : item))\<close>\<close>

definition setSpeakerQueue :: "string \<Rightarrow> SpeakerQueueModel \<Rightarrow> AppState \<Rightarrow> AppState" where
  "setSpeakerQueue i newItem st =
     st\<lparr>speakerQueue := map (\<lambda>item. if item_id item = i then newItem else item) (speakerQueue st)\<rparr>"

definition leadIn :: string where
  "leadIn = ''Actually, that'' @ [CHR 0x27] @ ''s not quite right. ''"

text \<open>
  The \<open>catch\<close> block of \<open>processStatement\<close>, entered with the states passed
  through so far: the error is logged and the entry is marked failed, in the store
  and then in the queue shown. When that upsert throws too, the promise of
  \<open>processStatement\<close> rejects.
\<close>

definition markFailed ::
  "ormAnswers \<Rightarrow> AppState list \<Rightarrow> AppState \<Rightarrow> SpeakerQueueModel \<Rightarrow> thrown
     \<Rightarrow> AppState list \<times> unit outcome" where
  "markFailed orm trace st queueItem error =
     (let logged = st\<lparr>consoleErrors := consoleErrors st @ [error]\<rparr>;
          failedItem = queueItem\<lparr>processing_status := Failed\<rparr>
      in case upsertFailed orm of
           Threw e \<Rightarrow> (trace @ [logged], Threw e)
         | Returned u \<Rightarrow>
             (let stored = setSpeakerQueueById (item_id queueItem) failedItem logged;
                  shown = (setSpeakerQueue (item_id queueItem) failedItem stored)
                            \<lparr>processingStatement := None\<rparr>
              in (trace @ [logged, stored, shown], Returned ())))"

text \<open>
  \<open>processStatement\<close>. The value is the sequence of the states passed through,
  the given state first, and how the promise settles.
\<close>

definition processStatement ::
  "apiConfig \<Rightarrow> network \<Rightarrow> ormAnswers \<Rightarrow> AppState \<Rightarrow> SpeakerQueueModel \<Rightarrow> string
     \<Rightarrow> AppState list \<times> unit outcome" where
  "processStatement cfg net orm st queueItem statementText =
     (let updatedItem = queueItem\<lparr>processing_status := Processing\<rparr>
      in case upsertProcessing orm of
           Threw error \<Rightarrow> markFailed orm [st] st queueItem error
         | Returned u \<Rightarrow>
             (let stored1 = setSpeakerQueueById (item_id queueItem) updatedItem st;
                  shown1 = (setSpeakerQueue (item_id queueItem) updatedItem stored1)
                             \<lparr>processingStatement := Some updatedItem\<rparr>
              in case verifyStatement cfg net statementText of
                   Threw error \<Rightarrow> markFailed orm [st, stored1, shown1] shown1 queueItem error
                 | Returned verificationResult \<Rightarrow>
                     (let verified = shown1\<lparr>verificationResults :=
                                        verificationResults shown1 @ [verificationResult]\<rparr>;
                          processedItem = updatedItem\<lparr>processing_status := Processed\<rparr>
                      in case upsertProcessed orm of
                           Threw error \<Rightarrow>
                             markFailed orm [st, stored1, shown1, verified] verified queueItem error
                         | Returned u \<Rightarrow>
                             (let stored2 = setSpeakerQueueById (item_id queueItem) processedItem
                                              verified;
                                  shown2 = (setSpeakerQueue (item_id queueItem) processedItem
                                              stored2)\<lparr>processingStatement := None\<rparr>;
                                  final =
                                    (case correctInformation verificationResult of
                                       None \<Rightarrow> shown2
                                     | Some correction \<Rightarrow>
                                         if isFalse verificationResult \<and> correction \<noteq> []
                                         then shown2\<lparr>interjections :=
                                                interjections shown2 @ [correction]\<rparr>
                                         else shown2)
                              in ([st, stored1, shown1, verified, stored2, shown2, final],
                                  Returned ())))))"

subsection \<open>The interjection task\<close>

text \<open>
  The task started for a correction waits for a break and then speaks. The names
  \<open>isCurrentlySpeaking\<close> and \<open>lastAudioTime\<close> are values of \<open>useState\<close>: each render
  of the component binds them anew as constants, and the callback made by
  \<open>useCallback\<close> closes over the constants of the render that created it. The
  interval callback therefore reads two fixed values and the clock, however the
  state of the component changes during the wait. Times are in
  milliseconds; \<open>start\<close> is the clock reading when the task begins, the interval
  callback runs at \<open>start + 100 * k\<close> for \<open>k = 1, 2, ...\<close> and the timeout at
  \<open>start + 10000\<close>. \<open>waitForBreak\<close> is the delay after which the promise resolves.
\<close>

definition checkBreak :: "bool \<Rightarrow> int \<Rightarrow> int \<Rightarrow> bool" where
  "checkBreak isCurrentlySpeaking lastAudioTime now =
     (\<not> isCurrentlySpeaking \<and> now - lastAudioTime > 1000)"

function pollFrom :: "bool \<Rightarrow> int \<Rightarrow> int \<Rightarrow> nat \<Rightarrow> nat" where
  "pollFrom isCurrentlySpeaking lastAudioTime start k =
     (if 100 \<le> k then 10000
      else if checkBreak isCurrentlySpeaking lastAudioTime (start + 100 * int k) then 100 * k
      else pollFrom isCurrentlySpeaking lastAudioTime start (Suc k))"
  by pat_completeness auto
termination
  by (relation "measure (\<lambda>(s, l, t, k). 100 - k)") auto

declare pollFrom.simps [simp del]

definition waitForBreak :: "bool \<Rightarrow> int \<Rightarrow> int \<Rightarrow> nat" where
  "waitForBreak isCurrentlySpeaking lastAudioTime start =
     pollFrom isCurrentlySpeaking lastAudioTime start 1"

text \<open>When the task speaks, as a delay from its start, and what it speaks.\<close>

definition interjection :: "bool \<Rightarrow> int \<Rightarrow> int \<Rightarrow> string \<Rightarrow> nat \<times> string" where
  "interjection isCurrentlySpeaking lastAudioTime start correction =
     (waitForBreak isCurrentlySpeaking lastAudioTime start, leadIn @ correction)"

section \<open>Notions used to state the properties\<close>

text \<open>The value a call returned, if it returned.\<close>

definition returned :: "'a outcome \<Rightarrow> 'a option" where
  "returned p = (case p of Threw e \<Rightarrow> None | Returned v \<Rightarrow> Some v)"

text \<open>
  The failure of an agent call, if it fails: \<open>fetch\<close> throws, the status is not
  ok (the agent then throws an error made of its label and the status text), or
  decoding the body throws.
\<close>

definition callFailure :: "string \<Rightarrow> 'b call \<Rightarrow> thrown option" where
  "callFailure label c =
     (case c of
        Threw e \<Rightarrow> Some e
      | Returned r \<Rightarrow>
          if \<not> ok r then Some (ErrorObj (label @ statusText r))
          else (case body r of Threw e \<Rightarrow> Some e | Returned v \<Rightarrow> None))"

definition failedVerdict :: "string \<Rightarrow> thrown \<Rightarrow> VerificationAgent" where
  "failedVerdict n e =
     \<lparr>name = n, verdict = Inconclusive, confidence = 0,
      reasoning = Some (''Error: '' @ errorMessage e), citations = None\<rparr>"


text \<open>Example configurations and network answers.\<close>

definition allKeys :: apiConfig where
  "allKeys =
     \<lparr>anthropic_apiKey = ''key'', fetchAI_apiKey = ''key'', gemini_apiKey = ''key'',
      brightData_apiKey = ''key'', lavaGateway_apiKey = ''key'', chromaAI_apiKey = ''key'',
      groq_apiKey = ''key''\<rparr>"

definition noKeys :: apiConfig where
  "noKeys =
     \<lparr>anthropic_apiKey = [], fetchAI_apiKey = [], gemini_apiKey = [],
      brightData_apiKey = [], lavaGateway_apiKey = [], chromaAI_apiKey = [],
      groq_apiKey = []\<rparr>"

definition offline :: network where
  "offline =
     \<lparr>randomUUID = ''id'',
      claudeMessages = Threw (ErrorObj ''Failed to fetch''),
      agentverseVerify = Threw (ErrorObj ''Failed to fetch''),
      geminiGenerate = Threw (ErrorObj ''Failed to fetch''),
      brightDataSearch = Threw (ErrorObj ''Failed to fetch''),
      llamaVerify = Threw (ErrorObj ''Failed to fetch''),
      lavaConsensusCall = Threw (ErrorObj ''Failed to fetch''),
      claudeCorrection = Threw (ErrorObj ''Failed to fetch'')\<rparr>"

definition answers :: "verdict \<Rightarrow> string option \<Rightarrow> string list option \<Rightarrow> agentReply call" where
  "answers v r cs =
     Returned \<lparr>ok = True, statusText = ''OK'',
       body = Returned \<lparr>reply_verdict = v, reply_confidence = 9 / 10,
                reply_reasoning = r, reply_citations = cs\<rparr>\<rparr>"

text \<open>The agents that voted False, and the citations an agent carries.\<close>

definition falseVoters :: "VerificationAgent list \<Rightarrow> VerificationAgent list" where
  "falseVoters agentList = filter (\<lambda>a. verdict a = VFalse) agentList"

definition citationsOf :: "VerificationAgent \<Rightarrow> string list" where
  "citationsOf a = (case citations a of None \<Rightarrow> [] | Some cs \<Rightarrow> cs)"

text \<open>
  The remote synthesis of a correction is unavailable: no key is configured, the
  request throws, the status is not ok, or the answer cannot be decoded.
\<close>

definition synthesisUnavailable :: "apiConfig \<Rightarrow> network \<Rightarrow> bool" where
  "synthesisUnavailable cfg net =
     (anthropic_apiKey cfg = [] \<or>
      (case claudeCorrection net of
         Threw e \<Rightarrow> True
       | Returned r \<Rightarrow> \<not> ok r \<or> (case body r of Threw e \<Rightarrow> True | Returned t \<Rightarrow> False)))"

definition genericCorrection :: string where
  "genericCorrection =
     ''The statement has been determined to be false, but specific corrections are unavailable.''"

text \<open>
  Three agents answer False and the Llama agent cites the same source twice; the
  consensus authority and the synthesis call are down.
\<close>

definition repeatedSource :: network where
  "repeatedSource =
     offline\<lparr>claudeMessages := answers VFalse (Some ''The Earth is round.'') None,
       geminiGenerate := answers VFalse (Some ''It is an oblate spheroid.'') None,
       llamaVerify := answers VFalse (Some ''Measurements show a globe.'')
                        (Some [''nasa.gov'', ''nasa.gov''])\<rparr>"

text \<open>An agent that votes False without giving a reasoning.\<close>

definition silentFalse :: VerificationAgent where
  "silentFalse =
     \<lparr>name = ''Claude (Anthropic)'', verdict = VFalse, confidence = 9 / 10,
      reasoning = None, citations = None\<rparr>"

definition reasonedFalse :: VerificationAgent where
  "reasonedFalse =
     \<lparr>name = ''Llama (Lava Portal)'', verdict = VFalse, confidence = 9 / 10,
      reasoning = Some ''Measurements show a globe.'', citations = Some [''nasa.gov'']\<rparr>"



text \<open>
  No remote analysis improves the text: each of the two services is unconfigured
  or its call fails.
\<close>

definition analysisUnavailable :: "apiConfig \<Rightarrow> semanticNetwork \<Rightarrow> string \<Rightarrow> bool" where
  "analysisUnavailable cfg net text =
     ((chromaAI_apiKey cfg = [] \<or>
       callFailure ''Chroma AI API error: '' (chromaSemanticAnalysis net text) \<noteq> None) \<and>
      (groq_apiKey cfg = [] \<or>
       callFailure ''Groq API error: '' (groqChatCompletions net text) \<noteq> None))"

text \<open>Remote semantic services that are down, and one that rewrites every text.\<close>

definition silent :: semanticNetwork where
  "silent =
     \<lparr>chromaSemanticAnalysis = (\<lambda>t. Threw (ErrorObj ''Failed to fetch'')),
      groqChatCompletions = (\<lambda>t. Threw (ErrorObj ''Failed to fetch'')),
      claudeClassification = (\<lambda>t. Threw (ErrorObj ''Failed to fetch''))\<rparr>"

definition rewriting :: semanticNetwork where
  "rewriting =
     silent\<lparr>chromaSemanticAnalysis := (\<lambda>t.
       Returned \<lparr>ok = True, statusText = ''OK'',
         body = Returned \<lparr>improved_text = Some ''The sky is blue. Water is wet.'',
                  data_confidence_s = Some (9 / 10)\<rparr>\<rparr>)\<rparr>"


text \<open>
  The status of the entry with a given id, as the queue shown has it and as the
  record store has it.
\<close>

definition memoryStatus :: "string \<Rightarrow> AppState \<Rightarrow> SpeakerQueueProcessingStatus option" where
  "memoryStatus i st =
     map_option processing_status (find (\<lambda>item. item_id item = i) (speakerQueue st))"

definition storedStatus :: "string \<Rightarrow> AppState \<Rightarrow> SpeakerQueueProcessingStatus option" where
  "storedStatus i st = map_option processing_status (store st i)"

text \<open>
  The successive distinct values of a status along the states passed through.
\<close>

definition statusHistory ::
  "(AppState \<Rightarrow> SpeakerQueueProcessingStatus option) \<Rightarrow> AppState list
     \<Rightarrow> SpeakerQueueProcessingStatus option list" where
  "statusHistory status trace = remdups_adj (map status trace)"

text \<open>
  A queue entry that has just been accepted: it is pending, and the queue shown and
  the record store both hold it.
\<close>

definition accepted :: "AppState \<Rightarrow> SpeakerQueueModel \<Rightarrow> bool" where
  "accepted st queueItem =
     (processing_status queueItem = Pending
      \<and> find (\<lambda>item. item_id item = item_id queueItem) (speakerQueue st) = Some queueItem
      \<and> store st (item_id queueItem) = Some queueItem)"

text \<open>An accepted entry, and answers of the record store.\<close>

definition entry1 :: SpeakerQueueModel where
  "entry1 =
     \<lparr>item_id = ''q1'', user_session_id = ''s1'', speaker_id_q = ''user-1'',
      statement_text = ''The Earth is flat'', statement_timestamp = ''t1'',
      processing_status = Pending\<rparr>"

definition state1 :: AppState where
  "state1 =
     \<lparr>store = [''q1'' \<mapsto> entry1], speakerQueue = [entry1], processingStatement = None,
      verificationResults = [], consoleErrors = [], interjections = []\<rparr>"

definition storeUp :: ormAnswers where
  "storeUp =
     \<lparr>upsertProcessing = Returned (), upsertProcessed = Returned (),
      upsertFailed = Returned ()\<rparr>"

definition storeDown :: thrown where
  "storeDown = ErrorObj ''Failed to fetch''"

section \<open>Properties\<close>

lemma votes_filter: "votes v agentList = length (filter (\<lambda>a. verdict a = v) agentList)"
  by (induction agentList) (auto simp: votes_def)

lemma votes_le: "votes v agentList \<le> length agentList"
  by (simp add: votes_filter)

lemma js_max_div:
  "a \<le> n \<Longrightarrow> b \<le> n \<Longrightarrow> js_max (js_div a n) (js_div b n) = js_div (max a b) n"
  by (auto simp: js_div_def max_def divide_le_cancel)

text \<open>
  C1. With \<open>f\<close>, \<open>t\<close> and \<open>i\<close> the fractions of False, True and Inconclusive
  votes among all \<open>N\<close> agentList, the local consensus is False with score \<open>f\<close> when
  \<open>f \<ge> 0.6\<close>, else True with score \<open>t\<close> when \<open>t \<ge> 0.6\<close>, else Inconclusive with
  score \<open>max(f, t, i)\<close>; the votes True, True, Inconclusive, Inconclusive,
  Inconclusive give Inconclusive with score \<open>0.6\<close>.
\<close>

theorem C1_local_consensus:
  "calculateLocalConsensus agentList =
     (let f = vote_fraction VFalse agentList;
          t = vote_fraction VTrue agentList;
          i = vote_fraction Inconclusive agentList
      in if js_ge f (Num (6 / 10)) then \<lparr>verdict_c = VFalse, consensusScore = f\<rparr>
         else if js_ge t (Num (6 / 10)) then \<lparr>verdict_c = VTrue, consensusScore = t\<rparr>
         else \<lparr>verdict_c = Inconclusive, consensusScore = js_max (js_max f t) i\<rparr>)
   \<and> calculateLocalConsensus
         (map agentWith [VTrue, VTrue, Inconclusive, Inconclusive, Inconclusive]) =
       \<lparr>verdict_c = Inconclusive, consensusScore = Num (6 / 10)\<rparr>"
proof
  show "calculateLocalConsensus agentList =
     (let f = vote_fraction VFalse agentList;
          t = vote_fraction VTrue agentList;
          i = vote_fraction Inconclusive agentList
      in if js_ge f (Num (6 / 10)) then \<lparr>verdict_c = VFalse, consensusScore = f\<rparr>
         else if js_ge t (Num (6 / 10)) then \<lparr>verdict_c = VTrue, consensusScore = t\<rparr>
         else \<lparr>verdict_c = Inconclusive, consensusScore = js_max (js_max f t) i\<rparr>)"
    using votes_le [of VFalse agentList] votes_le [of VTrue agentList]
      votes_le [of Inconclusive agentList]
    by (simp add: calculateLocalConsensus_def vote_fraction_def js_max_div
        consensusThreshold_def Let_def flip: votes_filter)
next
  show "calculateLocalConsensus
         (map agentWith [VTrue, VTrue, Inconclusive, Inconclusive, Inconclusive]) =
       \<lparr>verdict_c = Inconclusive, consensusScore = Num (6 / 10)\<rparr>"
    by (simp add: calculateLocalConsensus_def agentWith_def js_div_def
        consensusThreshold_def Let_def)
qed

lemma verifyWithClaude_returns:
  "\<exists>a. verifyWithClaude cfg net = Returned a \<and> name a = ''Claude (Anthropic)'' \<and>
     (\<forall>e. anthropic_apiKey cfg \<noteq> [] \<and> callFailure ''Claude API error: '' (claudeMessages net) = Some e
        \<longrightarrow> a = failedVerdict ''Claude (Anthropic)'' e)"
  by (auto simp: verifyWithClaude_def try_catch_def await_def callFailure_def failedVerdict_def
      split: outcome.splits)

lemma verifyWithFetchAI_returns:
  "\<exists>a. verifyWithFetchAI cfg net = Returned a \<and> name a = ''Fetch.ai'' \<and>
     (\<forall>e. fetchAI_apiKey cfg \<noteq> [] \<and> callFailure ''Fetch.ai API error: '' (agentverseVerify net) = Some e
        \<longrightarrow> a = failedVerdict ''Fetch.ai'' e)"
  by (auto simp: verifyWithFetchAI_def try_catch_def await_def callFailure_def failedVerdict_def
      split: outcome.splits)

lemma verifyWithGemini_returns:
  "\<exists>a. verifyWithGemini cfg net = Returned a \<and> name a = ''Gemini (Google)'' \<and>
     (\<forall>e. gemini_apiKey cfg \<noteq> [] \<and> callFailure ''Gemini API error: '' (geminiGenerate net) = Some e
        \<longrightarrow> a = failedVerdict ''Gemini (Google)'' e)"
  by (auto simp: verifyWithGemini_def try_catch_def await_def callFailure_def failedVerdict_def
      split: outcome.splits)

lemma verifyWithBrightData_returns:
  "\<exists>a. verifyWithBrightData cfg net = Returned a \<and> name a = ''Bright Data'' \<and>
     (\<forall>e. brightData_apiKey cfg \<noteq> [] \<and> callFailure ''Bright Data API error: '' (brightDataSearch net) = Some e
        \<longrightarrow> a = failedVerdict ''Bright Data'' e)"
  by (auto simp: verifyWithBrightData_def try_catch_def await_def callFailure_def failedVerdict_def
      Let_def split: outcome.splits)

lemma verifyWithLlama_returns:
  "\<exists>a. verifyWithLlama cfg net = Returned a \<and> name a = ''Llama (Lava Portal)'' \<and>
     (\<forall>e. lavaGateway_apiKey cfg \<noteq> [] \<and> callFailure ''Lava Gateway Llama API error: '' (llamaVerify net) = Some e
        \<longrightarrow> a = failedVerdict ''Llama (Lava Portal)'' e)"
  by (auto simp: verifyWithLlama_def try_catch_def await_def callFailure_def failedVerdict_def
      split: outcome.splits)

lemma getLavaGatewayConsensus_returns:
  "\<exists>c. getLavaGatewayConsensus cfg net agentList = Returned c"
  by (auto simp: getLavaGatewayConsensus_def try_catch_def await_def split: outcome.splits)

lemma generateCorrectInformation_returns:
  "\<exists>d. generateCorrectInformation cfg net agentList = Returned d"
  by (auto simp: generateCorrectInformation_def try_catch_def await_def Let_def
      split: outcome.splits list.splits)

lemma verifyStatement_returns:
  "\<exists>r a1 a2 a3 a4 a5. verifyStatement cfg net statement = Returned r \<and>
       agents r = [a1, a2, a3, a4, a5] \<and>
       verifyWithClaude cfg net = Returned a1 \<and> verifyWithFetchAI cfg net = Returned a2 \<and>
       verifyWithGemini cfg net = Returned a3 \<and> verifyWithBrightData cfg net = Returned a4 \<and>
       verifyWithLlama cfg net = Returned a5 \<and>
       getLavaGatewayConsensus cfg net (agents r) = Returned (lavaGatewayConsensus r)"
proof -
  obtain a1 a2 a3 a4 a5 where a:
    "verifyWithClaude cfg net = Returned a1" "verifyWithFetchAI cfg net = Returned a2"
    "verifyWithGemini cfg net = Returned a3" "verifyWithBrightData cfg net = Returned a4"
    "verifyWithLlama cfg net = Returned a5"
    using verifyWithClaude_returns verifyWithFetchAI_returns verifyWithGemini_returns
      verifyWithBrightData_returns verifyWithLlama_returns by metis
  obtain c where c: "getLavaGatewayConsensus cfg net [a1, a2, a3, a4, a5] = Returned c"
    using getLavaGatewayConsensus_returns by blast
  obtain d where d: "generateCorrectInformation cfg net [a1, a2, a3, a4, a5] = Returned d"
    using generateCorrectInformation_returns by blast
  show ?thesis
    by (simp add: verifyStatement_def a c d await_def Let_def)
qed



lemma generateCorrectInformation_generic:
  "falseReasonings agentList = [] \<Longrightarrow>
     generateCorrectInformation cfg net agentList =
       Returned \<lparr>correctInformation_d = genericCorrection, citations_d = []\<rparr>"
  by (simp add: generateCorrectInformation_def genericCorrection_def)

lemma generateCorrectInformation_citations:
  "falseReasonings agentList \<noteq> [] \<Longrightarrow>
     \<exists>t. generateCorrectInformation cfg net agentList =
       Returned \<lparr>correctInformation_d = t, citations_d = allCitations agentList\<rparr>"
  by (auto simp: generateCorrectInformation_def try_catch_def await_def Let_def
      split: outcome.splits list.splits)

lemma generateCorrectInformation_fallback:
  "falseReasonings agentList = r # rs \<Longrightarrow> synthesisUnavailable cfg net \<Longrightarrow>
     generateCorrectInformation cfg net agentList =
       Returned \<lparr>correctInformation_d = ''Correction: '' @ r,
         citations_d = allCitations agentList\<rparr>"
  by (auto simp: generateCorrectInformation_def synthesisUnavailable_def try_catch_def await_def
      Let_def split: outcome.splits)

lemma allCitations_concat:
  "allCitations agentList = concat (map citationsOf (falseVoters agentList))"
  by (simp add: allCitations_def falseVoters_def citationsOf_def [abs_def])

lemma falseReasonings_no_votes: "votes VFalse agentList = 0 \<Longrightarrow> falseReasonings agentList = []"
  by (simp add: votes_filter falseReasonings_def)

lemma falseReasonings_first:
  "find (\<lambda>a. verdict a = VFalse) agentList = Some a \<Longrightarrow> reasoning a = Some r \<Longrightarrow> r \<noteq> [] \<Longrightarrow>
     \<exists>rs. falseReasonings agentList = r # rs"
  by (induction agentList) (auto simp: falseReasonings_def split: if_splits)

text \<open>
  C3, as the code has it. The citation list of a correction is the concatenation, in
  dispatch order, of the citation lists of the agents that voted False: every
  citation of every such agent appears, in order, and a citation given twice appears
  twice. That holds when some False-voting agent gave a non-empty reasoning;
  otherwise the citation list is empty.
\<close>

theorem C3_citations_concatenated:
  "\<exists>d. generateCorrectInformation cfg net agentList = Returned d
     \<and> (falseReasonings agentList = [] \<longrightarrow> citations_d d = [])
     \<and> (falseReasonings agentList \<noteq> [] \<longrightarrow>
           citations_d d = concat (map citationsOf (falseVoters agentList))
           \<and> (\<forall>c. c \<in> set (citations_d d) \<longleftrightarrow>
                  (\<exists>a. a \<in> set agentList \<and> verdict a = VFalse \<and> c \<in> set (citationsOf a))))"
proof (cases "falseReasonings agentList = []")
  case True
  then show ?thesis
    using generateCorrectInformation_generic [of agentList cfg net] by simp
next
  case False
  then obtain t where "generateCorrectInformation cfg net agentList =
       Returned \<lparr>correctInformation_d = t, citations_d = allCitations agentList\<rparr>"
    using generateCorrectInformation_citations by blast
  with False show ?thesis
    by (auto simp: allCitations_concat falseVoters_def)
qed

theorem C3_witness:
  "\<exists>d. generateCorrectInformation noKeys offline [silentFalse, reasonedFalse] = Returned d
     \<and> citations_d d = [''nasa.gov'']"
  using C3_citations_concatenated [of noKeys offline "[silentFalse, reasonedFalse]"]
  by (auto simp: falseReasonings_def falseVoters_def citationsOf_def silentFalse_def
      reasonedFalse_def)

text \<open>
  The claim of a deduplicated list fails: with three of five agents voting False
  and one of them citing a source twice, the verdict is False and the returned
  citation list holds that source twice.
\<close>

theorem C3_counterexample:
  "map_option consensus
     (returned (verifyStatement allKeys repeatedSource ''The Earth is flat'')) =
     Some verified_false
   \<and> map_option citations_r
     (returned (verifyStatement allKeys repeatedSource ''The Earth is flat'')) =
     Some (Some [''nasa.gov'', ''nasa.gov''])"
  by (simp add: verifyStatement_def verifyWithClaude_def verifyWithFetchAI_def
      verifyWithGemini_def verifyWithBrightData_def verifyWithLlama_def
      getLavaGatewayConsensus_def generateCorrectInformation_def calculateLocalConsensus_def
      falseReasonings_def allCitations_def consensusThreshold_def js_div_def
      allKeys_def repeatedSource_def offline_def answers_def
      try_catch_def await_def returned_def Let_def)

text \<open>
  C4, as the code has it. When no agent voted False, and more generally when no
  False-voting agent gave a non-empty reasoning, the correction is the generic
  message with no citation. Otherwise, when the remote synthesis is unconfigured or
  fails, the correction is the label \<open>Correction: \<close> followed by the first
  non-empty reasoning among the False-voting agents, which is the reasoning of the
  first False-voting agent when that agent gave one.
\<close>

theorem C4_correction_fallback:
  "(votes VFalse agentList = 0 \<longrightarrow>
      generateCorrectInformation cfg net agentList =
        Returned \<lparr>correctInformation_d = genericCorrection, citations_d = []\<rparr>)
   \<and> (falseReasonings agentList = [] \<longrightarrow>
      generateCorrectInformation cfg net agentList =
        Returned \<lparr>correctInformation_d = genericCorrection, citations_d = []\<rparr>)
   \<and> (\<forall>r rs. synthesisUnavailable cfg net \<and> falseReasonings agentList = r # rs \<longrightarrow>
      generateCorrectInformation cfg net agentList =
        Returned \<lparr>correctInformation_d = ''Correction: '' @ r,
          citations_d = allCitations agentList\<rparr>)
   \<and> (\<forall>a r. synthesisUnavailable cfg net
          \<and> find (\<lambda>a. verdict a = VFalse) agentList = Some a
          \<and> reasoning a = Some r \<and> r \<noteq> [] \<longrightarrow>
      generateCorrectInformation cfg net agentList =
        Returned \<lparr>correctInformation_d = ''Correction: '' @ r,
          citations_d = allCitations agentList\<rparr>)"
  using generateCorrectInformation_generic [of agentList cfg net]
    generateCorrectInformation_fallback [of agentList _ _ cfg net]
    falseReasonings_no_votes [of agentList] falseReasonings_first [of agentList]
  by metis

theorem C4_witness:
  "generateCorrectInformation noKeys offline [agentWith VTrue] =
     Returned \<lparr>correctInformation_d = genericCorrection, citations_d = []\<rparr>
   \<and> generateCorrectInformation noKeys offline [silentFalse, reasonedFalse] =
     Returned \<lparr>correctInformation_d = ''Correction: Measurements show a globe.'',
       citations_d = [''nasa.gov'']\<rparr>
   \<and> generateCorrectInformation allKeys offline [reasonedFalse, silentFalse] =
     Returned \<lparr>correctInformation_d = ''Correction: Measurements show a globe.'',
       citations_d = [''nasa.gov'']\<rparr>"
proof -
  have 1: "votes VFalse [agentWith VTrue] = 0"
    by (simp add: votes_def agentWith_def)
  have 2: "synthesisUnavailable noKeys offline
      \<and> falseReasonings [silentFalse, reasonedFalse] = [''Measurements show a globe.'']"
    by (simp add: synthesisUnavailable_def noKeys_def falseReasonings_def silentFalse_def
        reasonedFalse_def)
  have 3: "synthesisUnavailable allKeys offline
      \<and> find (\<lambda>a. verdict a = VFalse) [reasonedFalse, silentFalse] = Some reasonedFalse
      \<and> reasoning reasonedFalse = Some ''Measurements show a globe.''
      \<and> ''Measurements show a globe.'' \<noteq> []"
    by (simp add: synthesisUnavailable_def allKeys_def offline_def reasonedFalse_def)
  have c1: "allCitations [silentFalse, reasonedFalse] = [''nasa.gov'']"
    and c2: "allCitations [reasonedFalse, silentFalse] = [''nasa.gov'']"
    by (simp_all add: allCitations_def silentFalse_def reasonedFalse_def)
  show ?thesis
    using C4_correction_fallback [of "[agentWith VTrue]" noKeys offline] 1
      C4_correction_fallback [of "[silentFalse, reasonedFalse]" noKeys offline] 2
      C4_correction_fallback [of "[reasonedFalse, silentFalse]" allKeys offline] 3
    by (simp add: c1 c2)
qed

text \<open>
  The claim that one False vote and a failed synthesis give a quoted reasoning fails
  for an agent that votes False without a reasoning: the generic message is returned.
\<close>

theorem C4_counterexample:
  "votes VFalse [silentFalse] = 1
   \<and> synthesisUnavailable noKeys offline
   \<and> take 11 genericCorrection \<noteq> ''Correction:''
   \<and> returned (generateCorrectInformation noKeys offline [silentFalse]) =
       Some \<lparr>correctInformation_d = genericCorrection, citations_d = []\<rparr>"
  by (simp add: votes_def silentFalse_def synthesisUnavailable_def noKeys_def
      generateCorrectInformation_def falseReasonings_def genericCorrection_def returned_def)


lemma analyzeTranscription_returns:
  "\<exists>a. analyzeTranscription cfg net text = Returned a
     \<and> (analysisUnavailable cfg net text \<longrightarrow> a = fallbackAnalysis text)"
  by (auto simp: analyzeTranscription_def analyzeWithChromaAI_def analyzeWithGroq_def
      analysisUnavailable_def callFailure_def try_catch_def await_def Let_def
      split: outcome.splits if_splits)







lemma trim_empty_iff: "trim s = [] \<longleftrightarrow> (\<forall>c \<in> set s. isWhiteSpace c)"
proof
  assume "trim s = []"
  then have "\<forall>c \<in> set (dropWhile isWhiteSpace s). isWhiteSpace c"
    by (simp add: trim_def dropWhile_eq_Nil_conv)
  then have "dropWhile isWhiteSpace s = []"
    by (metis hd_dropWhile list.set_sel(1))
  then show "\<forall>c \<in> set s. isWhiteSpace c"
    by (simp add: dropWhile_eq_Nil_conv)
next
  assume "\<forall>c \<in> set s. isWhiteSpace c"
  then show "trim s = []"
    by (auto simp: trim_def dest: set_dropWhileD)
qed

lemma splitBoundaries_chars:
  "p \<in> set (splitBoundaries cur s) \<Longrightarrow> set p \<subseteq> set cur \<union> set s"
proof (induction cur s arbitrary: p rule: splitBoundaries.induct)
  case (1 cur)
  then show ?case by simp
next
  case (2 cur c cs)
  show ?case
  proof (cases "isBoundary c")
    case True
    with 2 have "p = rev cur \<or> p \<in> set (splitBoundaries [] (dropWhile isBoundary cs))"
      by simp
    then show ?thesis
    proof
      assume "p = rev cur"
      then show ?thesis by auto
    next
      assume "p \<in> set (splitBoundaries [] (dropWhile isBoundary cs))"
      then have "set p \<subseteq> set (dropWhile isBoundary cs)"
        using 2(1) [OF True] by simp
      then show ?thesis
        using set_dropWhileD by fastforce
    qed
  next
    case False
    with 2 show ?thesis by auto
  qed
qed

lemma extractStatements_nonempty: "extractStatements t \<noteq> []"
  by (simp add: extractStatements_def Let_def)

lemma extractStatements_blank:
  assumes "trim t = []"
  shows "extractStatements t = [t]"
proof -
  have "trim p = []" if "p \<in> set (splitBoundaries [] t)" for p
    using splitBoundaries_chars [OF that] assms by (auto simp: trim_empty_iff)
  then have "filter (\<lambda>s. trim s \<noteq> []) (splitBoundaries [] t) = []"
    by (simp add: filter_empty_conv)
  then show ?thesis
    by (simp add: extractStatements_def)
qed

lemma extractStatements_sky:
  "extractStatements ''The sky is blue and water is wet'' = [''The sky is blue'', ''water is wet'']"
  by code_simp

text \<open>
  C6, as the code has it. The segmenter always returns, and what it returns is never
  empty. It works on the text that the semantic analysis gives back, which is the
  input itself whenever no remote analysis is configured or the remote call fails:
  when that text is "The sky is blue and water is wet" the statements are exactly
  "The sky is blue" and "water is wet", and when it is empty after trimming it is
  returned, unmodified, as the single statement.
\<close>

theorem C6_segmenter_output:
  "\<exists>a ss. analyzeTranscription cfg net text = Returned a
     \<and> splitStatements cfg net text = Returned ss
     \<and> ss \<noteq> []
     \<and> (analysisUnavailable cfg net text \<longrightarrow> improvedText a = text)
     \<and> (improvedText a = ''The sky is blue and water is wet'' \<longrightarrow>
           ss = [''The sky is blue'', ''water is wet''])
     \<and> (trim (improvedText a) = [] \<longrightarrow> ss = [improvedText a])"
proof -
  obtain a where a: "analyzeTranscription cfg net text = Returned a"
    and u: "analysisUnavailable cfg net text \<longrightarrow> a = fallbackAnalysis text"
    using analyzeTranscription_returns by blast
  have "splitStatements cfg net text = Returned (extractStatements (improvedText a))"
    by (simp add: splitStatements_def a await_def)
  then show ?thesis
    using a u extractStatements_nonempty [of "improvedText a"]
      extractStatements_blank [of "improvedText a"] extractStatements_sky
    by (auto simp: fallbackAnalysis_def)
qed

theorem C6_witness:
  "splitStatements noKeys silent ''The sky is blue and water is wet'' =
     Returned [''The sky is blue'', ''water is wet'']
   \<and> splitStatements allKeys silent [CHR '' '', CHR 0x09, CHR '' ''] =
     Returned [[CHR '' '', CHR 0x09, CHR '' '']]"
proof -
  have u1: "analysisUnavailable noKeys silent ''The sky is blue and water is wet''"
    by (simp add: analysisUnavailable_def noKeys_def)
  have u2: "analysisUnavailable allKeys silent [CHR '' '', CHR 0x09, CHR '' '']"
    by (simp add: analysisUnavailable_def silent_def callFailure_def)
  have t: "trim [CHR '' '', CHR 0x09, CHR '' ''] = []"
    by (simp add: trim_def isWhiteSpace_def)
  show ?thesis
    using C6_segmenter_output [of noKeys silent "''The sky is blue and water is wet''"]
      C6_segmenter_output [of allKeys silent "[CHR '' '', CHR 0x09, CHR '' '']"] u1 u2 t
    by auto
qed

text \<open>
  The claim read for every input fails when a remote analysis rewrites the text:
  the statements are those of the rewritten text, for the sentence about the sky
  and for an input of spaces alike.
\<close>

theorem C6_counterexample:
  "returned (splitStatements allKeys rewriting ''The sky is blue and water is wet'') =
     Some [''The sky is blue'', ''Water is wet'']
   \<and> returned (splitStatements allKeys rewriting ''   '') =
     Some [''The sky is blue'', ''Water is wet'']"
  by code_simp







lemma find_setSpeakerQueue:
  "find (\<lambda>item. item_id item = i) (speakerQueue st) \<noteq> None \<Longrightarrow> item_id new = i \<Longrightarrow>
     find (\<lambda>item. item_id item = i) (speakerQueue (setSpeakerQueue i new st)) = Some new"
proof -
  have "find (\<lambda>item. item_id item = i) xs \<noteq> None \<Longrightarrow> item_id new = i \<Longrightarrow>
      find (\<lambda>item. item_id item = i) (map (\<lambda>item. if item_id item = i then new else item) xs)
        = Some new" for xs
    by (induction xs) auto
  then show "find (\<lambda>item. item_id item = i) (speakerQueue st) \<noteq> None \<Longrightarrow> item_id new = i \<Longrightarrow>
     find (\<lambda>item. item_id item = i) (speakerQueue (setSpeakerQueue i new st)) = Some new"
    by (simp add: setSpeakerQueue_def)
qed

lemma speakerQueue_setSpeakerQueueById [simp]:
  "speakerQueue (setSpeakerQueueById i item st) = speakerQueue st"
  by (simp add: setSpeakerQueueById_def)

lemma store_setSpeakerQueueById [simp]:
  "store (setSpeakerQueueById i item st) = (store st)(i \<mapsto> item)"
  by (simp add: setSpeakerQueueById_def)

lemma store_setSpeakerQueue [simp]: "store (setSpeakerQueue i item st) = store st"
  by (simp add: setSpeakerQueue_def)

lemma others_setSpeakerQueue [simp]:
  "verificationResults (setSpeakerQueue i item st) = verificationResults st"
  "consoleErrors (setSpeakerQueue i item st) = consoleErrors st"
  "interjections (setSpeakerQueue i item st) = interjections st"
  by (simp_all add: setSpeakerQueue_def)

lemma others_setSpeakerQueueById [simp]:
  "verificationResults (setSpeakerQueueById i item st) = verificationResults st"
  "consoleErrors (setSpeakerQueueById i item st) = consoleErrors st"
  "interjections (setSpeakerQueueById i item st) = interjections st"
  by (simp_all add: setSpeakerQueueById_def)

text \<open>The five ways \<open>processStatement\<close> can run, by the answers of the record store.\<close>

lemma processStatement_first_upsert_fails:
  assumes "accepted st q" and "upsertProcessing orm = Threw e" and "upsertFailed orm = Returned u"
  shows "statusHistory (memoryStatus (item_id q)) (fst (processStatement cfg net orm st q stmt)) =
           [Some Pending, Some Failed]"
    and "statusHistory (storedStatus (item_id q)) (fst (processStatement cfg net orm st q stmt)) =
           [Some Pending, Some Failed]"
    and "consoleErrors (last (fst (processStatement cfg net orm st q stmt))) = consoleErrors st @ [e]"
    and "verificationResults (last (fst (processStatement cfg net orm st q stmt))) =
           verificationResults st"
    and "interjections (last (fst (processStatement cfg net orm st q stmt))) = interjections st"
  using assms
  by (simp_all add: processStatement_def markFailed_def accepted_def statusHistory_def
      memoryStatus_def storedStatus_def find_setSpeakerQueue Let_def)

lemma processStatement_both_upserts_fail:
  assumes "accepted st q" and "upsertProcessing orm = Threw e" and "upsertFailed orm = Threw e'"
  shows "statusHistory (memoryStatus (item_id q)) (fst (processStatement cfg net orm st q stmt)) =
           [Some Pending]"
    and "statusHistory (storedStatus (item_id q)) (fst (processStatement cfg net orm st q stmt)) =
           [Some Pending]"
    and "snd (processStatement cfg net orm st q stmt) = Threw e'"
  using assms
  by (simp_all add: processStatement_def markFailed_def accepted_def statusHistory_def
      memoryStatus_def storedStatus_def find_setSpeakerQueue Let_def)

lemma processStatement_second_upsert_fails:
  assumes "accepted st q" and "upsertProcessing orm = Returned u"
    and "verifyStatement cfg net stmt = Returned vr"
    and "upsertProcessed orm = Threw e" and "upsertFailed orm = Returned u'"
  shows "statusHistory (memoryStatus (item_id q)) (fst (processStatement cfg net orm st q stmt)) =
           [Some Pending, Some Processing, Some Failed]"
    and "statusHistory (storedStatus (item_id q)) (fst (processStatement cfg net orm st q stmt)) =
           [Some Pending, Some Processing, Some Failed]"
    and "consoleErrors (last (fst (processStatement cfg net orm st q stmt))) = consoleErrors st @ [e]"
    and "verificationResults (last (fst (processStatement cfg net orm st q stmt))) =
           verificationResults st @ [vr]"
    and "interjections (last (fst (processStatement cfg net orm st q stmt))) = interjections st"
  using assms
  by (simp_all add: processStatement_def markFailed_def accepted_def statusHistory_def
      memoryStatus_def storedStatus_def find_setSpeakerQueue Let_def)

lemma processStatement_last_upserts_fail:
  assumes "accepted st q" and "upsertProcessing orm = Returned u"
    and "verifyStatement cfg net stmt = Returned vr"
    and "upsertProcessed orm = Threw e" and "upsertFailed orm = Threw e'"
  shows "statusHistory (memoryStatus (item_id q)) (fst (processStatement cfg net orm st q stmt)) =
           [Some Pending, Some Processing]"
    and "statusHistory (storedStatus (item_id q)) (fst (processStatement cfg net orm st q stmt)) =
           [Some Pending, Some Processing]"
    and "snd (processStatement cfg net orm st q stmt) = Threw e'"
  using assms
  by (simp_all add: processStatement_def markFailed_def accepted_def statusHistory_def
      memoryStatus_def storedStatus_def find_setSpeakerQueue Let_def)

lemma processStatement_upserts_succeed:
  assumes "accepted st q" and "upsertProcessing orm = Returned u"
    and "verifyStatement cfg net stmt = Returned vr"
    and "upsertProcessed orm = Returned u'"
  shows "statusHistory (memoryStatus (item_id q)) (fst (processStatement cfg net orm st q stmt)) =
           [Some Pending, Some Processing, Some Processed]"
    and "statusHistory (storedStatus (item_id q)) (fst (processStatement cfg net orm st q stmt)) =
           [Some Pending, Some Processing, Some Processed]"
    and "consoleErrors (last (fst (processStatement cfg net orm st q stmt))) = consoleErrors st"
    and "verificationResults (last (fst (processStatement cfg net orm st q stmt))) =
           verificationResults st @ [vr]"
    and "snd (processStatement cfg net orm st q stmt) = Returned ()"
  using assms
  by (auto simp add: processStatement_def markFailed_def accepted_def statusHistory_def
      memoryStatus_def storedStatus_def find_setSpeakerQueue Let_def split: option.splits)


lemma processStatement_processed_has_result:
  assumes "accepted st q"
    and "s \<in> set (fst (processStatement cfg net orm st q stmt))"
    and "memoryStatus (item_id q) s = Some Processed \<or> storedStatus (item_id q) s = Some Processed"
  shows "\<exists>vr. verifyStatement cfg net stmt = Returned vr \<and> vr \<in> set (verificationResults s)"
proof -
  obtain vr where vr: "verifyStatement cfg net stmt = Returned vr"
    using verifyStatement_returns [of cfg net stmt] by blast
  show ?thesis
    using assms
    by (cases "upsertProcessing orm"; cases "upsertProcessed orm"; cases "upsertFailed orm")
      (auto simp add: vr processStatement_def markFailed_def accepted_def
        memoryStatus_def storedStatus_def find_setSpeakerQueue Let_def
        split: option.splits if_splits)
qed

text \<open>
  C8, as the code has it. For an entry that has just been accepted, the status shown
  and the status stored only ever move forward along Pending, Processing and then
  Processed or Failed, with one more move than the claim allows: Pending goes
  straight to Failed when the upsert of the Processing status throws. After
  Processed or Failed there is no further move. In every state in which the entry
  is Processed, shown or stored, the result of its verification has been recorded.
\<close>

theorem C8_status_progression:
  assumes "accepted st queueItem"
  shows "statusHistory (memoryStatus (item_id queueItem))
           (fst (processStatement cfg net orm st queueItem statementText))
         \<in> set [[Some Pending], [Some Pending, Some Processing],
                [Some Pending, Some Processing, Some Processed],
                [Some Pending, Some Processing, Some Failed],
                [Some Pending, Some Failed]]
     \<and> statusHistory (storedStatus (item_id queueItem))
           (fst (processStatement cfg net orm st queueItem statementText))
         \<in> set [[Some Pending], [Some Pending, Some Processing],
                [Some Pending, Some Processing, Some Processed],
                [Some Pending, Some Processing, Some Failed],
                [Some Pending, Some Failed]]
     \<and> (\<forall>s \<in> set (fst (processStatement cfg net orm st queueItem statementText)).
           memoryStatus (item_id queueItem) s = Some Processed
           \<or> storedStatus (item_id queueItem) s = Some Processed \<longrightarrow>
           (\<exists>vr. verifyStatement cfg net statementText = Returned vr
                 \<and> vr \<in> set (verificationResults s)))"
proof -
  obtain vr where vr: "verifyStatement cfg net statementText = Returned vr"
    using verifyStatement_returns [of cfg net statementText] by blast
  have h: "statusHistory (memoryStatus (item_id queueItem))
           (fst (processStatement cfg net orm st queueItem statementText))
         \<in> set [[Some Pending], [Some Pending, Some Processing],
                [Some Pending, Some Processing, Some Processed],
                [Some Pending, Some Processing, Some Failed],
                [Some Pending, Some Failed]]
     \<and> statusHistory (storedStatus (item_id queueItem))
           (fst (processStatement cfg net orm st queueItem statementText))
         \<in> set [[Some Pending], [Some Pending, Some Processing],
                [Some Pending, Some Processing, Some Processed],
                [Some Pending, Some Processing, Some Failed],
                [Some Pending, Some Failed]]"
  proof (cases "upsertProcessing orm")
    case p: (Threw e)
    show ?thesis
    proof (cases "upsertFailed orm")
      case (Threw e')
      then show ?thesis
        using processStatement_both_upserts_fail [OF assms p] by simp
    next
      case (Returned u)
      then show ?thesis
        using processStatement_first_upsert_fails [OF assms p] by simp
    qed
  next
    case p: (Returned u)
    show ?thesis
    proof (cases "upsertProcessed orm")
      case d: (Threw e)
      show ?thesis
      proof (cases "upsertFailed orm")
        case (Threw e')
        then show ?thesis
          using processStatement_last_upserts_fail [OF assms p vr d] by simp
      next
        case (Returned u')
        then show ?thesis
          using processStatement_second_upsert_fails [OF assms p vr d] by simp
      qed
    next
      case (Returned u')
      then show ?thesis
        using processStatement_upserts_succeed [OF assms p vr] by simp
    qed
  qed
  show ?thesis
    using h processStatement_processed_has_result [OF assms] by blast
qed

theorem C8_witness:
  "accepted state1 entry1
   \<and> statusHistory (memoryStatus ''q1'')
        (fst (processStatement allKeys offline storeUp state1 entry1 ''The Earth is flat''))
      \<in> set [[Some Pending], [Some Pending, Some Processing],
             [Some Pending, Some Processing, Some Processed],
             [Some Pending, Some Processing, Some Failed],
             [Some Pending, Some Failed]]"
proof -
  have a: "accepted state1 entry1"
    by (simp add: accepted_def state1_def entry1_def)
  have i: "item_id entry1 = ''q1''"
    by (simp add: entry1_def)
  show ?thesis
    using a C8_status_progression [OF a, of allKeys offline storeUp "''The Earth is flat''"]
    unfolding i by blast
qed

text \<open>
  The move from Pending to Failed: the first upsert throws and the entry is marked
  failed without ever being Processing.
\<close>

theorem C8_counterexample:
  "statusHistory (memoryStatus ''q1'')
     (fst (processStatement allKeys offline (storeUp\<lparr>upsertProcessing := Threw storeDown\<rparr>)
        state1 entry1 ''The Earth is flat'')) =
   [Some Pending, Some Failed]"
proof -
  have a: "accepted state1 entry1"
    by (simp add: accepted_def state1_def entry1_def)
  have i: "item_id entry1 = ''q1''"
    by (simp add: entry1_def)
  show ?thesis
    using processStatement_first_upsert_fails(1) [OF a, of
        "storeUp\<lparr>upsertProcessing := Threw storeDown\<rparr>" storeDown "()" allKeys offline
        "''The Earth is flat''"]
    unfolding i by (simp add: storeUp_def)
qed




lemma waitForBreak_first:
  "checkBreak s l (start + 100) \<Longrightarrow> waitForBreak s l start = 100"
  unfolding waitForBreak_def by (subst pollFrom.simps) simp

lemma pollFrom_speaking: "pollFrom True l start k = 10000"
proof (induction "True" l start k rule: pollFrom.induct)
  case (1 l start k)
  then show ?case
    by (subst pollFrom.simps) (simp add: checkBreak_def)
qed

lemma pollFrom_bounds:
  "0 < k \<Longrightarrow> k \<le> 100 \<Longrightarrow>
     100 * k \<le> pollFrom s l start k \<and> pollFrom s l start k \<le> 10000
     \<and> 100 dvd pollFrom s l start k"
proof (induction s l start k rule: pollFrom.induct)
  case (1 s l start k)
  show ?case
  proof (cases "100 \<le> k \<or> checkBreak s l (start + 100 * int k)")
    case True
    then show ?thesis
      using "1.prems" by (subst (1 2 3) pollFrom.simps) auto
  next
    case False
    then have "100 * Suc k \<le> pollFrom s l start (Suc k) \<and> pollFrom s l start (Suc k) \<le> 10000
        \<and> 100 dvd pollFrom s l start (Suc k)"
      using "1.IH" "1.prems" by simp
    then show ?thesis
      using False by (subst (1 2 3) pollFrom.simps) simp
  qed
qed

text \<open>
  C10, on the code. The task speaks the correction after the lead-in, at a multiple
  of 100 ms between 100 ms and 10000 ms after its start. The condition it polls is
  evaluated on the two constants of the render in which the callback was created,
  not on the live signal: when these say that nobody speaks and that the last audio
  is 5 seconds old, the task speaks 100 ms after its start, whatever is being said
  meanwhile; when they say that somebody speaks, it waits the full 10000 ms.
\<close>

theorem C10_interjection_on_stale_signal:
  "interjection False (start - 5000) start correction = (100, leadIn @ correction)
   \<and> interjection False 995000 1000000 ''The Earth is round.'' =
       (100, ''Actually, that'' @ [CHR 0x27] @ ''s not quite right. The Earth is round.'')
   \<and> interjection True lastAudioTime start correction = (10000, leadIn @ correction)
   \<and> snd (interjection isCurrentlySpeaking lastAudioTime start correction) = leadIn @ correction
   \<and> 100 \<le> fst (interjection isCurrentlySpeaking lastAudioTime start correction)
   \<and> fst (interjection isCurrentlySpeaking lastAudioTime start correction) \<le> 10000
   \<and> 100 dvd fst (interjection isCurrentlySpeaking lastAudioTime start correction)"
proof -
  have b: "100 \<le> waitForBreak isCurrentlySpeaking lastAudioTime start
      \<and> waitForBreak isCurrentlySpeaking lastAudioTime start \<le> 10000
      \<and> 100 dvd waitForBreak isCurrentlySpeaking lastAudioTime start"
    unfolding waitForBreak_def
    using pollFrom_bounds [of 1 isCurrentlySpeaking lastAudioTime start] by simp
  have s: "waitForBreak True lastAudioTime start = 10000"
    unfolding waitForBreak_def by (rule pollFrom_speaking)
  have f1: "waitForBreak False (start - 5000) start = 100"
    by (rule waitForBreak_first) (simp add: checkBreak_def)
  have f2: "waitForBreak False 995000 1000000 = 100"
    by (rule waitForBreak_first) (simp add: checkBreak_def)
  show ?thesis
    using b by (simp add: interjection_def s f1 f2 leadIn_def)
qed

end
